theory Spec2Isabelle
  imports Main "HOL-Library.Word" "HOL-Library.Sublist"
begin

section \<open>Go values used by the generator\<close>

text \<open>
  The package \<open>generatetoken\<close> (generator.go) is a thin orchestration over the
  standard library, the jwx library and the go-github client. Integers keep their
  width (\<open>int64\<close>, \<open>time.Duration\<close>), a \<open>time.Time\<close> is read as nanoseconds since
  the Unix epoch, and \<open>[]byte\<close> and \<open>string\<close> are both byte lists.
\<close>

type_synonym int64 = "64 word"
type_synonym Duration = "64 word"
type_synonym Time = int
type_synonym bytes = string

definition newline :: string where
  "newline = [CHR 0x0A]"

definition Minute :: Duration where
  "Minute = 60000000000"

text \<open>\<open>Time.Add\<close>: the instant \<open>d\<close> nanoseconds later (\<open>d\<close> is a signed 64-bit count).\<close>

definition Add :: "Time \<Rightarrow> Duration \<Rightarrow> Time" where
  "Add t d = t + sint d"

subsection \<open>Errors\<close>

text \<open>
  The dynamic types an \<open>error\<close> value has in this program:
  \<^item> \<open>ErrHelp\<close>: the sentinel \<open>flag.ErrHelp\<close>;
  \<^item> \<open>ErrorString\<close>: what \<open>errors.New\<close> returns, and \<open>fmt.Errorf\<close> without \<open>%w\<close>;
  \<^item> \<open>WrapError\<close>: what \<open>fmt.Errorf\<close> returns for a format with \<open>%w\<close>: the
    message and the wrapped error;
  \<^item> \<open>Foreign\<close>: an error of a type declared by a collaborator (file system, jwx,
    go-github): its message and, when its type has a method \<open>ExitCode() int\<close>, what
    that method returns.
\<close>

datatype go_error =
    ErrHelp
  | ErrorString string
  | WrapError string go_error
  | Foreign string "int option"

fun Error :: "go_error \<Rightarrow> string" where
  "Error ErrHelp = ''flag: help requested''"
| "Error (ErrorString s) = s"
| "Error (WrapError s e) = s"
| "Error (Foreign s c) = s"

text \<open>\<open>fmt.Errorf(label + "%w", err)\<close>, the only shape of wrapping the package uses.\<close>

definition Errorf_w :: "string \<Rightarrow> go_error \<Rightarrow> go_error" where
  "Errorf_w label err = WrapError (label @ Error err) err"

text \<open>\<open>errors.Is\<close>: the error itself or one in its \<open>Unwrap\<close> chain is the target.\<close>

fun errors_Is :: "go_error \<Rightarrow> go_error \<Rightarrow> bool" where
  "errors_Is (WrapError s e) target = (WrapError s e = target \<or> errors_Is e target)"
| "errors_Is e target = (e = target)"

text \<open>
  The type assertion \<open>err.(interface{ ExitCode() int })\<close> of \<open>Run\<close>, followed by the
  call: it looks at the dynamic type of \<open>err\<close> itself, never at what \<open>err\<close> wraps.
\<close>

fun ExitCode :: "go_error \<Rightarrow> int option" where
  "ExitCode (Foreign s c) = c"
| "ExitCode e = None"

subsection \<open>strconv and strings\<close>

definition digit_char :: "nat \<Rightarrow> char" where
  "digit_char n = ''0123456789'' ! n"

fun FormatUint :: "nat \<Rightarrow> string" where
  "FormatUint n = (if n < 10 then [digit_char n] else FormatUint (n div 10) @ [digit_char (n mod 10)])"

declare FormatUint.simps [simp del]

text \<open>\<open>strconv.FormatInt(i, 10)\<close>.\<close>

definition FormatInt :: "int \<Rightarrow> string" where
  "FormatInt i = (if i < 0 then CHR ''-'' # FormatUint (nat (- i)) else FormatUint (nat i))"

text \<open>Reading a decimal numeral back, to say what "decimal string form" means.\<close>

definition decimal_value :: "string \<Rightarrow> nat" where
  "decimal_value s = foldl (\<lambda>acc c. 10 * acc + (of_char c - 48)) 0 s"

text \<open>\<open>strings.Index\<close> and \<open>strings.Cut\<close>.\<close>

primrec Index :: "string \<Rightarrow> string \<Rightarrow> nat option" where
  "Index [] substr = (if substr = [] then Some 0 else None)"
| "Index (c # cs) substr =
     (if prefix substr (c # cs) then Some 0 else map_option Suc (Index cs substr))"

definition Cut :: "string \<Rightarrow> string \<Rightarrow> string \<times> string \<times> bool" where
  "Cut s sep =
     (case Index s sep of
        Some i \<Rightarrow> (take i s, drop (i + length sep) s, True)
      | None \<Rightarrow> (s, [], False))"

subsection \<open>jwx: keys, tokens, algorithms\<close>

type_synonym jwk_Key = bytes
type_synonym rsa_PrivateKey = bytes

datatype jwa_SignatureAlgorithm = ES256 | HS256 | PS256 | RS256 | RS384 | RS512

text \<open>
  A \<open>jwt.Token\<close>: the registered claims and the private ones. The builder starts from
  the empty token; each builder method sets one claim.
\<close>

record jwt_Token =
  iss :: "string option"
  sub :: "string option"
  aud :: "string list"
  exp :: "Time option"
  nbf :: "Time option"
  iat :: "Time option"
  jti :: "string option"
  privateClaims :: "(string \<times> string) list"

definition NewBuilder :: jwt_Token where
  "NewBuilder = \<lparr>iss = None, sub = None, aud = [], exp = None, nbf = None, iat = None,
     jti = None, privateClaims = []\<rparr>"

definition Issuer :: "string \<Rightarrow> jwt_Token \<Rightarrow> jwt_Token" where
  "Issuer v b = b\<lparr>iss := Some v\<rparr>"

definition IssuedAt :: "Time \<Rightarrow> jwt_Token \<Rightarrow> jwt_Token" where
  "IssuedAt v b = b\<lparr>iat := Some v\<rparr>"

definition Expiration :: "Time \<Rightarrow> jwt_Token \<Rightarrow> jwt_Token" where
  "Expiration v b = b\<lparr>exp := Some v\<rparr>"

text \<open>\<open>Builder.Build\<close> fails only when setting a claim failed; these three cannot.\<close>

definition Build :: "jwt_Token \<Rightarrow> go_error + jwt_Token" where
  "Build b = Inr b"

text \<open>
  What the library's \<open>jwt.Sign\<close> puts into a token is the library's choice, not the
  package's. It marshals the claims with every time written as a NumericDate, a whole
  number of seconds since the epoch (\<open>Time.Unix\<close>, which rounds down), and joins the
  header naming the algorithm, the claims and a signature over both into the compact
  serialisation. The serialisation is kept symbolic here: \<open>Compact alg claims key\<close>
  stands for the message signed with \<open>key\<close>, \<open>PublicKey key\<close> for the public half
  of \<open>key\<close>, and a message verifies for an algorithm and a public key exactly when
  it names that algorithm and was signed with the matching private key. \<open>jwx_Sign\<close>
  is \<open>jwt.Sign\<close> for a key that can sign; \<open>encode\<close> turns the message into bytes.
\<close>

definition NumericDate :: "Time \<Rightarrow> int" where
  "NumericDate t = t div 1000000000"

record jwt_Claims =
  claim_iss :: "string option"
  claim_sub :: "string option"
  claim_aud :: "string list"
  claim_exp :: "int option"
  claim_nbf :: "int option"
  claim_iat :: "int option"
  claim_jti :: "string option"
  claim_private :: "(string \<times> string) list"

definition Marshal :: "jwt_Token \<Rightarrow> jwt_Claims" where
  "Marshal t = \<lparr>claim_iss = iss t, claim_sub = sub t, claim_aud = aud t,
     claim_exp = map_option NumericDate (exp t), claim_nbf = map_option NumericDate (nbf t),
     claim_iat = map_option NumericDate (iat t), claim_jti = jti t,
     claim_private = privateClaims t\<rparr>"

datatype rsa_PublicKey = PublicKey rsa_PrivateKey

datatype jws_Message = Compact jwa_SignatureAlgorithm jwt_Claims rsa_PrivateKey

fun jws_Verify :: "jws_Message \<Rightarrow> jwa_SignatureAlgorithm \<Rightarrow> rsa_PublicKey \<Rightarrow> bool" where
  "jws_Verify (Compact a c k) alg pub = (a = alg \<and> pub = PublicKey k)"

definition jwx_Sign ::
  "(jws_Message \<Rightarrow> bytes) \<Rightarrow> jwt_Token \<Rightarrow> jwa_SignatureAlgorithm \<Rightarrow> rsa_PrivateKey \<Rightarrow> go_error + bytes" where
  "jwx_Sign encode t alg key = Inr (encode (Compact alg (Marshal t) key))"

subsection \<open>go-github: installations\<close>

record Installation =
  ID :: "int64 option"

record InstallationToken =
  Token :: "string option"

definition GetID :: "Installation \<Rightarrow> int64" where
  "GetID i = (case ID i of None \<Rightarrow> 0 | Some v \<Rightarrow> v)"

definition GetToken :: "InstallationToken \<Rightarrow> string" where
  "GetToken t = (case Token t of None \<Rightarrow> [] | Some v \<Rightarrow> v)"

section \<open>The collaborators and the effects\<close>

text \<open>
  What the program asks of the outside world, as functions of the arguments it
  passes. \<open>ParseInt s\<close> is \<open>strconv.ParseInt(s, 0, 64)\<close>: the value and whether it
  failed on syntax or on range; \<open>ParseDuration\<close> is \<open>time.ParseDuration\<close>;
  \<open>Quote\<close> is the \<open>%q\<close> verb. The two \<open>Apps\<close> calls take the bearer token the
  client was built with.
\<close>

datatype num_error = ErrSyntax | ErrRange

record env =
  ParseInt :: "string \<Rightarrow> int64 \<times> num_error option"
  ParseDuration :: "string \<Rightarrow> Duration option"
  Quote :: "string \<Rightarrow> string"
  ReadFile :: "string \<Rightarrow> go_error + bytes"
  ParseKey :: "bytes \<Rightarrow> go_error + jwk_Key"
  Raw :: "jwk_Key \<Rightarrow> go_error + rsa_PrivateKey"
  Now :: Time
  Sign :: "jwt_Token \<Rightarrow> jwa_SignatureAlgorithm \<Rightarrow> rsa_PrivateKey \<Rightarrow> go_error + bytes"
  FindRepositoryInstallation :: "string \<Rightarrow> string \<Rightarrow> string \<Rightarrow> go_error + Installation"
  CreateInstallationToken :: "string \<Rightarrow> int64 \<Rightarrow> go_error + InstallationToken"

text \<open>
  What the program does to the outside world, in order. \<open>FlagSetError\<close> and
  \<open>FlagSetUsage\<close> are what the \<open>FlagSet\<close> prints by itself on its own output
  (the process's standard error: \<open>run\<close> never calls \<open>SetOutput\<close>); \<open>OutWrite\<close> and
  \<open>ErrWrite\<close> are one \<open>Fprintln\<close> each on the generator's \<open>outStream\<close> and
  \<open>errStream\<close>; \<open>HttpFind\<close> and \<open>HttpCreate\<close> are the two remote calls with their
  bearer token.
\<close>

datatype event =
    FlagSetError string
  | FlagSetUsage string
  | FileRead string
  | HttpFind string string string
  | HttpCreate string int64
  | OutWrite string
  | ErrWrite string

fun is_network :: "event \<Rightarrow> bool" where
  "is_network (HttpFind t owner repo) = True"
| "is_network (HttpCreate t i) = True"
| "is_network e = False"

fun is_file_read :: "event \<Rightarrow> bool" where
  "is_file_read (FileRead p) = True"
| "is_file_read e = False"

fun is_flag_event :: "event \<Rightarrow> bool" where
  "is_flag_event (FlagSetError m) = True"
| "is_flag_event (FlagSetUsage p) = True"
| "is_flag_event e = False"

fun stdout_of :: "event list \<Rightarrow> string list" where
  "stdout_of [] = []"
| "stdout_of (OutWrite s # evs) = s # stdout_of evs"
| "stdout_of (e # evs) = stdout_of evs"

fun stderr_of :: "event list \<Rightarrow> string list" where
  "stderr_of [] = []"
| "stderr_of (ErrWrite s # evs) = s # stderr_of evs"
| "stderr_of (e # evs) = stderr_of evs"

section \<open>The generator\<close>

record Generator =
  privateKeyPath :: string
  appID :: int64
  tokenLiveness :: Duration
  installedRepository :: string

text \<open>\<open>NewGenerator\<close>: the four fields hold their zero values.\<close>

definition NewGenerator :: Generator where
  "NewGenerator = \<lparr>privateKeyPath = [], appID = 0, tokenLiveness = 0, installedRepository = []\<rparr>"

definition shouldGenerateInstallationToken :: "Generator \<Rightarrow> bool" where
  "shouldGenerateInstallationToken g = (installedRepository g \<noteq> [])"

subsection \<open>The flag set of \<open>run\<close>\<close>

text \<open>
  \<open>run\<close> registers four flags, each bound to a field of the generator; registering
  a flag stores its default in the field.
\<close>

definition register_flags :: "Generator \<Rightarrow> Generator" where
  "register_flags g =
     g\<lparr>appID := 0, privateKeyPath := [], tokenLiveness := Minute, installedRepository := []\<rparr>"

definition formal :: "string list" where
  "formal = [''id'', ''private-key'', ''liveness'', ''repo'']"

text \<open>
  \<open>Value.Set\<close> of the flag \<open>name\<close>: the numeric setters store what the parser
  returned also when it failed, and report \<open>parse error\<close> or \<open>value out of range\<close>.
\<close>

definition flag_Set :: "env \<Rightarrow> string \<Rightarrow> string \<Rightarrow> Generator \<Rightarrow> Generator \<times> go_error option" where
  "flag_Set env name v g =
     (if name = ''id'' then
        (case ParseInt env v of
           (n, None) \<Rightarrow> (g\<lparr>appID := n\<rparr>, None)
         | (n, Some ErrSyntax) \<Rightarrow> (g\<lparr>appID := n\<rparr>, Some (ErrorString ''parse error''))
         | (n, Some ErrRange) \<Rightarrow> (g\<lparr>appID := n\<rparr>, Some (ErrorString ''value out of range'')))
      else if name = ''private-key'' then (g\<lparr>privateKeyPath := v\<rparr>, None)
      else if name = ''liveness'' then
        (case ParseDuration env v of
           Some d \<Rightarrow> (g\<lparr>tokenLiveness := d\<rparr>, None)
         | None \<Rightarrow> (g\<lparr>tokenLiveness := 0\<rparr>, Some (ErrorString ''parse error'')))
      else (g\<lparr>installedRepository := v\<rparr>, None))"

text \<open>\<open>FlagSet.failf\<close>: print the message and the usage, return the message as an error.\<close>

definition failf :: "string \<Rightarrow> string \<Rightarrow> go_error \<times> event list" where
  "failf prog msg = (ErrorString msg, [FlagSetError msg, FlagSetUsage prog])"

text \<open>The name of a flag up to its first \<open>=\<close> (never the first byte), and the value after it.\<close>

definition split_value :: "string \<Rightarrow> string \<times> bool \<times> string" where
  "split_value name =
     (if CHR ''='' \<in> set name
      then (takeWhile (\<lambda>c. c \<noteq> CHR ''='') name, True, tl (dropWhile (\<lambda>c. c \<noteq> CHR ''='') name))
      else (name, False, []))"

text \<open>
  \<open>FlagSet.parseOne\<close>: whether a flag was seen, the error, the generator after
  \<open>Set\<close>, the arguments left, and what was printed.
\<close>

definition parseOne ::
  "env \<Rightarrow> string \<Rightarrow> Generator \<Rightarrow> string list \<Rightarrow> (bool \<times> go_error option) \<times> Generator \<times> string list \<times> event list" where
  "parseOne env prog g args =
     (case args of
        [] \<Rightarrow> ((False, None), g, args, [])
      | s # rest \<Rightarrow>
          (case s of
             [] \<Rightarrow> ((False, None), g, args, [])
           | [c] \<Rightarrow> ((False, None), g, args, [])
           | c0 # c1 # s2 \<Rightarrow>
               if c0 \<noteq> CHR ''-'' then ((False, None), g, args, [])
               else if c1 = CHR ''-'' \<and> s2 = [] then ((False, None), g, rest, [])
               else
                 (case (if c1 = CHR ''-'' then s2 else c1 # s2) of
                    [] \<Rightarrow> (case failf prog (''bad flag syntax: '' @ s) of
                             (err, evs) \<Rightarrow> ((False, Some err), g, args, evs))
                  | n0 # ns \<Rightarrow>
                      if n0 = CHR ''-'' \<or> n0 = CHR ''='' then
                        (case failf prog (''bad flag syntax: '' @ s) of
                           (err, evs) \<Rightarrow> ((False, Some err), g, args, evs))
                      else
                        (case split_value (n0 # ns) of
                           (name, hasValue, v) \<Rightarrow>
                             if name \<in> set formal then
                               (case (if hasValue then Some (v, rest)
                                      else (case rest of [] \<Rightarrow> None | a # rest' \<Rightarrow> Some (a, rest'))) of
                                  None \<Rightarrow>
                                    (case failf prog (''flag needs an argument: -'' @ name) of
                                       (err, evs) \<Rightarrow> ((False, Some err), g, rest, evs))
                                | Some (v', rest') \<Rightarrow>
                                    (case flag_Set env name v' g of
                                       (g', None) \<Rightarrow> ((True, None), g', rest', [])
                                     | (g', Some e) \<Rightarrow>
                                         (case failf prog (''invalid value '' @ Quote env v' @ '' for flag -''
                                                  @ name @ '': '' @ Error e) of
                                            (err, evs) \<Rightarrow> ((False, Some err), g', rest', evs))))
                             else if name = ''help'' \<or> name = ''h'' then
                               ((False, Some ErrHelp), g, rest, [FlagSetUsage prog])
                             else
                               (case failf prog (''flag provided but not defined: -'' @ name) of
                                  (err, evs) \<Rightarrow> ((False, Some err), g, rest, evs))))))"

text \<open>\<open>FlagSet.Parse\<close> with \<open>ContinueOnError\<close>: one flag after the other until one fails or none is left.\<close>

function Parse :: "env \<Rightarrow> string \<Rightarrow> Generator \<Rightarrow> string list \<Rightarrow> go_error option \<times> Generator \<times> event list" where
  "Parse env prog g args =
     (case parseOne env prog g args of
        ((seen, err), g', args', evs) \<Rightarrow>
          if seen then
            (case Parse env prog g' args' of (r, g'', evs') \<Rightarrow> (r, g'', evs @ evs'))
          else (err, g', evs))"
  by pat_completeness auto
termination
  by (relation "measure (\<lambda>(env, prog, g, args). length args)")
     (auto simp: parseOne_def failf_def
        split: list.splits if_splits prod.splits option.splits)

declare Parse.simps [simp del]

subsection \<open>Signing the app token\<close>

definition generateAppToken :: "env \<Rightarrow> Generator \<Rightarrow> (go_error + bytes) \<times> Generator \<times> event list" where
  "generateAppToken env g =
     (case ReadFile env (privateKeyPath g) of
        Inl err \<Rightarrow>
          (Inl (Errorf_w (''ioutil.ReadFile('' @ privateKeyPath g @ ''): '') err), g,
           [FileRead (privateKeyPath g)])
      | Inr rawKey \<Rightarrow>
          (case ParseKey env rawKey of
             Inl err \<Rightarrow> (Inl (Errorf_w ''jwk.ParseKey(): '' err), g, [FileRead (privateKeyPath g)])
           | Inr combinedKey \<Rightarrow>
               (case Raw env combinedKey of
                  Inl err \<Rightarrow> (Inl (Errorf_w ''jwk.Key.Raw(): '' err), g, [FileRead (privateKeyPath g)])
                | Inr key \<Rightarrow>
                    (let now = Now env in
                     case Build (Expiration (Add now (tokenLiveness g))
                                  (IssuedAt now (Issuer (FormatInt (sint (appID g))) NewBuilder))) of
                       Inl err \<Rightarrow>
                         (Inl (Errorf_w ''jwt.Builder.Build(): '' err), g, [FileRead (privateKeyPath g)])
                     | Inr token \<Rightarrow> (Sign env token RS256 key, g, [FileRead (privateKeyPath g)])))))"

subsection \<open>Exchanging it for an installation token\<close>

definition generateInstallationToken ::
  "env \<Rightarrow> Generator \<Rightarrow> string \<Rightarrow> (go_error + string) \<times> Generator \<times> event list" where
  "generateInstallationToken env g appToken =
     (case Cut (installedRepository g) ''/'' of
        (owner, repo, found) \<Rightarrow>
          if \<not> found then
            (Inl (ErrorString (''malformed repository name: '' @ installedRepository g)), g, [])
          else
            (case FindRepositoryInstallation env appToken owner repo of
               Inl err \<Rightarrow>
                 (Inl (Errorf_w ''Apps.FindRepositoryInstallation(): '' err), g,
                  [HttpFind appToken owner repo])
             | Inr installation \<Rightarrow>
                 (case CreateInstallationToken env appToken (GetID installation) of
                    Inl err \<Rightarrow>
                      (Inl (Errorf_w ''Apps.CreateInstallationToken(): '' err), g,
                       [HttpFind appToken owner repo, HttpCreate appToken (GetID installation)])
                  | Inr out \<Rightarrow>
                      (Inr (GetToken out), g,
                       [HttpFind appToken owner repo, HttpCreate appToken (GetID installation)]))))"

subsection \<open>One invocation\<close>

text \<open>
  \<open>run\<close> and \<open>Run\<close> return \<open>None\<close> where the Go code panics: \<open>argv[0]\<close> on an empty
  argument vector. Otherwise they return their result, the generator as left behind
  and the effects in order.
\<close>

definition run :: "env \<Rightarrow> string list \<Rightarrow> Generator \<Rightarrow> (go_error option \<times> Generator \<times> event list) option" where
  "run env argv g =
     (case argv of
        [] \<Rightarrow> None
      | prog # args \<Rightarrow>
          (case Parse env prog (register_flags g) args of
             (Some err, g1, evs) \<Rightarrow>
               if errors_Is err ErrHelp then Some (None, g1, evs) else Some (Some err, g1, evs)
           | (None, g1, evs) \<Rightarrow>
               if privateKeyPath g1 = [] then
                 Some (Some (ErrorString ''-private-key is required''), g1, evs)
               else if appID g1 = 0 then
                 Some (Some (ErrorString ''-id is required''), g1, evs)
               else
                 (case generateAppToken env g1 of
                    (Inl err, g2, evs2) \<Rightarrow>
                      Some (Some (Errorf_w ''generateAuthToken(): '' err), g2, evs @ evs2)
                  | (Inr appToken, g2, evs2) \<Rightarrow>
                      if shouldGenerateInstallationToken g2 then
                        (case generateInstallationToken env g2 appToken of
                           (Inl err, g3, evs3) \<Rightarrow>
                             Some (Some (Errorf_w ''generateInstallationToken(): '' err), g3,
                                   evs @ evs2 @ evs3)
                         | (Inr installationToken, g3, evs3) \<Rightarrow>
                             Some (None, g3,
                                   evs @ evs2 @ evs3 @ [OutWrite (installationToken @ newline)]))
                      else Some (None, g2, evs @ evs2 @ [OutWrite (appToken @ newline)]))))"

definition Run :: "env \<Rightarrow> string list \<Rightarrow> Generator \<Rightarrow> (int \<times> Generator \<times> event list) option" where
  "Run env argv g =
     (case run env argv g of
        None \<Rightarrow> None
      | Some (None, g', evs) \<Rightarrow> Some (0, g', evs)
      | Some (Some err, g', evs) \<Rightarrow>
          Some (case ExitCode err of Some c \<Rightarrow> c | None \<Rightarrow> 0, g',
                evs @ [ErrWrite (Error err @ newline)]))"

section \<open>Example worlds\<close>

text \<open>
  \<open>acme\<close>: the key file \<open>key.pem\<close> holds an RSA key, the app is installed on
  \<open>acme/widgets\<close> as installation 999, and the remote service answers every token
  request with \<open>ghs_abc\<close>. \<open>offline\<close>: the same machine with no key file and no
  network. Both read decimal numerals only.
\<close>

definition decimal_ParseInt :: "string \<Rightarrow> int64 \<times> num_error option" where
  "decimal_ParseInt s =
     (if s \<noteq> [] \<and> list_all (\<lambda>c. 48 \<le> (of_char c :: nat) \<and> (of_char c :: nat) \<le> 57) s
      then (if decimal_value s < 2 ^ 63 then (of_nat (decimal_value s), None)
            else (0x7FFFFFFFFFFFFFFF, Some ErrRange))
      else (0, Some ErrSyntax))"

definition seconds_ParseDuration :: "string \<Rightarrow> Duration option" where
  "seconds_ParseDuration s =
     (if s = ''0s'' then Some 0
      else if s = ''-5s'' then Some (- 5000000000)
      else if s = ''10m'' then Some 600000000000
      else None)"

definition acme :: env where
  "acme = \<lparr>
     ParseInt = decimal_ParseInt,
     ParseDuration = seconds_ParseDuration,
     Quote = (\<lambda>s. [CHR 0x22] @ s @ [CHR 0x22]),
     ReadFile = (\<lambda>p. if p = ''key.pem'' then Inr ''PEM'' else Inl (Foreign ''no such file or directory'' None)),
     ParseKey = (\<lambda>b. if b = ''PEM'' then Inr ''JWK'' else Inl (Foreign ''failed to parse PEM encoded key'' None)),
     Raw = (\<lambda>k. if k = ''JWK'' then Inr ''RSA'' else Inl (Foreign ''argument to AssignIfCompatible() must be compatible'' None)),
     Now = 1667401200000000000,
     Sign = (\<lambda>t a k. Inr (''jwt.'' @ (case iss t of None \<Rightarrow> [] | Some i \<Rightarrow> i))),
     FindRepositoryInstallation =
       (\<lambda>t owner repo. if owner = ''acme'' then Inr \<lparr>ID = Some 999\<rparr> else Inl (Foreign ''404 Not Found'' (Some 4))),
     CreateInstallationToken =
       (\<lambda>t i. if i = 999 then Inr \<lparr>Token = Some ''ghs_abc''\<rparr> else Inl (Foreign ''403 Forbidden'' (Some 3)))\<rparr>"

definition offline :: env where
  "offline = acme\<lparr>
     ReadFile := (\<lambda>p. Inl (Foreign ''no such file or directory'' (Some 2))),
     FindRepositoryInstallation := (\<lambda>t owner repo. Inl (Foreign ''dial tcp: no route to host'' (Some 1))),
     CreateInstallationToken := (\<lambda>t i. Inl (Foreign ''dial tcp: no route to host'' (Some 1)))\<rparr>"

text \<open>
  \<open>acme_jwx\<close>: \<open>acme\<close> with the library's signing, the token written as issuer,
  issued-at, expiration and key separated by dots.
\<close>

definition dotted :: "jws_Message \<Rightarrow> bytes" where
  "dotted m =
     (case m of Compact a c k \<Rightarrow>
        (case claim_iss c of None \<Rightarrow> [] | Some i \<Rightarrow> i) @ ''.''
        @ (case claim_iat c of None \<Rightarrow> [] | Some s \<Rightarrow> FormatInt s) @ ''.''
        @ (case claim_exp c of None \<Rightarrow> [] | Some s \<Rightarrow> FormatInt s) @ ''.'' @ k)"

definition acme_jwx :: env where
  "acme_jwx = acme\<lparr>Sign := jwx_Sign dotted\<rparr>"

section \<open>Basic facts\<close>

subsection \<open>Decimal numerals\<close>

lemma digit_char_val: "d < 10 \<Longrightarrow> of_char (digit_char d) = (48::nat) + d"
proof -
  assume "d < 10"
  then have "d \<in> {0, 1, 2, 3, 4, 5, 6, 7, 8, 9}" by auto
  then show ?thesis by (auto simp: digit_char_def)
qed

lemma decimal_value_snoc: "decimal_value (s @ [c]) = 10 * decimal_value s + (of_char c - 48)"
  by (simp add: decimal_value_def)

lemma decimal_value_FormatUint: "decimal_value (FormatUint n) = n"
proof (induction n rule: FormatUint.induct)
  case (1 n)
  show ?case
  proof (cases "n < 10")
    case True
    then show ?thesis
      by (subst FormatUint.simps) (simp add: decimal_value_def digit_char_val)
  next
    case False
    then have "decimal_value (FormatUint (n div 10)) = n div 10"
      using 1 by simp
    with False show ?thesis
      by (subst FormatUint.simps) (simp add: decimal_value_snoc digit_char_val)
  qed
qed

lemma FormatInt_123: "FormatInt 123 = ''123''"
  by (simp add: FormatInt_def FormatUint.simps digit_char_def)

subsection \<open>Whole seconds\<close>

lemma NumericDate_window:
  "(NumericDate (t + d) - NumericDate t) * 1000000000 < d + 1000000000"
  "d - 1000000000 < (NumericDate (t + d) - NumericDate t) * 1000000000"
proof -
  define q1 r1 q0 r0 where "q1 = (t + d) div 1000000000" and "r1 = (t + d) mod 1000000000"
    and "q0 = t div 1000000000" and "r0 = t mod 1000000000"
  have e1: "t + d = 1000000000 * q1 + r1" and e0: "t = 1000000000 * q0 + r0"
    by (simp_all add: q1_def r1_def q0_def r0_def)
  have b: "0 \<le> r1" "r1 < 1000000000" "0 \<le> r0" "r0 < 1000000000"
    by (simp_all add: r1_def r0_def)
  have "(q1 - q0) * 1000000000 = d - r1 + r0"
    using e1 e0 by (simp add: algebra_simps)
  then have "(q1 - q0) * 1000000000 < d + 1000000000" "d - 1000000000 < (q1 - q0) * 1000000000"
    using b by linarith+
  then show "(NumericDate (t + d) - NumericDate t) * 1000000000 < d + 1000000000"
    "d - 1000000000 < (NumericDate (t + d) - NumericDate t) * 1000000000"
    by (simp_all only: NumericDate_def q1_def q0_def)
qed

lemma NumericDate_whole:
  assumes "d mod 1000000000 = 0"
  shows "(NumericDate (t + d) - NumericDate t) * 1000000000 = d"
proof -
  from assms obtain k where k: "d = 1000000000 * k" by auto
  have "(t + 1000000000 * k) div 1000000000 = t div 1000000000 + k"
    by simp
  then show ?thesis
    by (simp only: NumericDate_def k) simp
qed

subsection \<open>Cutting at the first slash\<close>

lemma Index_slash:
  "Index s ''/'' =
     (if CHR ''/'' \<in> set s then Some (length (takeWhile (\<lambda>c. c \<noteq> CHR ''/'') s)) else None)"
  by (induction s) auto

lemma Cut_slash:
  "Cut s ''/'' =
     (if CHR ''/'' \<in> set s
      then (takeWhile (\<lambda>c. c \<noteq> CHR ''/'') s, tl (dropWhile (\<lambda>c. c \<noteq> CHR ''/'') s), True)
      else (s, [], False))"
proof -
  let ?P = "\<lambda>c. c \<noteq> CHR ''/''"
  have t: "take (length (takeWhile ?P s)) s = takeWhile ?P s"
    by (rule takeWhile_eq_take [symmetric])
  have "drop (Suc (length (takeWhile ?P s))) s = tl (drop (length (takeWhile ?P s)) s)"
    by (simp add: drop_Suc tl_drop)
  also have "drop (length (takeWhile ?P s)) s = dropWhile ?P s"
    by (rule dropWhile_eq_drop [symmetric])
  finally have d: "drop (Suc (length (takeWhile ?P s))) s = tl (dropWhile ?P s)" .
  show ?thesis
    by (simp add: Cut_def Index_slash t d)
qed

subsection \<open>What the streams hold\<close>

lemma stdout_of_append: "stdout_of (xs @ ys) = stdout_of xs @ stdout_of ys"
  by (induction xs rule: stdout_of.induct) auto

lemma stderr_of_append: "stderr_of (xs @ ys) = stderr_of xs @ stderr_of ys"
  by (induction xs rule: stderr_of.induct) auto

lemma flag_events_silent:
  "list_all is_flag_event evs \<Longrightarrow>
     stdout_of evs = [] \<and> stderr_of evs = [] \<and> \<not> list_ex is_network evs \<and> \<not> list_ex is_file_read evs"
proof (induction evs)
  case Nil
  then show ?case by simp
next
  case (Cons e evs)
  then show ?case by (cases e) auto
qed

subsection \<open>Flag parsing\<close>

lemma parseOne_seen_shorter:
  "parseOne env prog g args = ((True, e), g', args', evs) \<Longrightarrow> length args' < length args"
  by (auto simp: parseOne_def failf_def split: list.splits if_splits prod.splits option.splits)

lemma parseOne_events:
  "parseOne env prog g args = ((seen, err), g', args', evs) \<Longrightarrow> list_all is_flag_event evs"
  by (auto simp: parseOne_def failf_def split: list.splits if_splits prod.splits option.splits)

lemma parseOne_error_shape:
  "parseOne env prog g args = ((seen, Some e), g', args', evs) \<Longrightarrow>
     e = ErrHelp \<or> (\<exists>m. e = ErrorString m)"
  by (auto simp: parseOne_def failf_def split: list.splits if_splits prod.splits option.splits)

lemma Parse_unfold:
  "parseOne env prog g args = ((seen, err), g', args', evs) \<Longrightarrow>
     Parse env prog g args =
       (if seen then (case Parse env prog g' args' of (r, g'', evs') \<Rightarrow> (r, g'', evs @ evs'))
        else (err, g', evs))"
  by (simp add: Parse.simps)

lemma Parse_events:
  "Parse env prog g args = (r, g', evs) \<Longrightarrow> list_all is_flag_event evs"
proof (induction "length args" arbitrary: g args r g' evs rule: less_induct)
  case less
  obtain seen err g1 args1 evs1 where p: "parseOne env prog g args = ((seen, err), g1, args1, evs1)"
    by (metis prod.exhaust)
  show ?case
  proof (cases seen)
    case True
    obtain r2 g2 evs2 where q: "Parse env prog g1 args1 = (r2, g2, evs2)"
      by (metis prod.exhaust)
    from p True have "length args1 < length args"
      by (auto dest: parseOne_seen_shorter)
    then have "list_all is_flag_event evs2"
      using less.hyps q by blast
    moreover have "list_all is_flag_event evs1"
      using p by (rule parseOne_events)
    moreover have "evs = evs1 @ evs2"
      using less.prems p q True by (simp add: Parse_unfold)
    ultimately show ?thesis by simp
  next
    case False
    then have "evs = evs1"
      using less.prems p by (simp add: Parse_unfold)
    then show ?thesis
      using p by (auto dest: parseOne_events)
  qed
qed

lemma Parse_error_shape:
  "Parse env prog g args = (Some e, g', evs) \<Longrightarrow> e = ErrHelp \<or> (\<exists>m. e = ErrorString m)"
proof (induction "length args" arbitrary: g args g' evs rule: less_induct)
  case less
  obtain seen err g1 args1 evs1 where p: "parseOne env prog g args = ((seen, err), g1, args1, evs1)"
    by (metis prod.exhaust)
  show ?case
  proof (cases seen)
    case True
    obtain r2 g2 evs2 where q: "Parse env prog g1 args1 = (r2, g2, evs2)"
      by (metis prod.exhaust)
    from p True have "length args1 < length args"
      by (auto dest: parseOne_seen_shorter)
    moreover have "r2 = Some e"
      using less.prems p q True by (simp add: Parse_unfold)
    ultimately show ?thesis
      using less.hyps q by blast
  next
    case False
    then have "err = Some e"
      using less.prems p by (simp add: Parse_unfold)
    then show ?thesis
      using p by (auto dest: parseOne_error_shape)
  qed
qed

lemma parseOne_seen_quiet:
  "parseOne env prog g args = ((True, e), g', args', evs) \<Longrightarrow> evs = []"
  by (auto simp: parseOne_def failf_def split: list.splits if_splits prod.splits option.splits)

lemma parseOne_usage_events:
  "parseOne env prog g args = ((False, Some ErrHelp), g', args', evs) \<Longrightarrow> evs = [FlagSetUsage prog]"
  by (auto simp: parseOne_def failf_def split: list.splits if_splits prod.splits option.splits)

lemma Parse_usage_events:
  "Parse env prog g args = (Some ErrHelp, g', evs) \<Longrightarrow> evs = [FlagSetUsage prog]"
proof (induction "length args" arbitrary: g args g' evs rule: less_induct)
  case less
  obtain seen err g1 args1 evs1 where p: "parseOne env prog g args = ((seen, err), g1, args1, evs1)"
    by (metis prod.exhaust)
  show ?case
  proof (cases seen)
    case True
    obtain r2 g2 evs2 where q: "Parse env prog g1 args1 = (r2, g2, evs2)"
      by (metis prod.exhaust)
    from p True have "length args1 < length args" and "evs1 = []"
      by (auto dest: parseOne_seen_shorter parseOne_seen_quiet)
    moreover have "r2 = Some ErrHelp" and "evs = evs1 @ evs2"
      using less.prems p q True by (simp_all add: Parse_unfold)
    ultimately show ?thesis
      using less.hyps q by auto
  next
    case False
    then have "err = Some ErrHelp" and "evs = evs1"
      using less.prems p by (simp_all add: Parse_unfold)
    then show ?thesis
      using p False by (auto dest: parseOne_usage_events)
  qed
qed

lemma Parse_help: "Parse env prog g args = (Some e, g', evs) \<Longrightarrow> errors_Is e ErrHelp = (e = ErrHelp)"
  by (auto dest: Parse_error_shape)

subsection \<open>The signer and the exchanger leave the generator alone\<close>

lemma generateAppToken_frame:
  "generateAppToken env g = (r, g', evs) \<Longrightarrow> g' = g \<and> evs = [FileRead (privateKeyPath g)]"
  by (auto simp: generateAppToken_def Build_def Let_def split: sum.splits)

lemma generateInstallationToken_frame:
  "generateInstallationToken env g t = (r, g', evs) \<Longrightarrow> g' = g"
  by (auto simp: generateInstallationToken_def split: sum.splits prod.splits if_splits)

lemma generateAppToken_signs:
  assumes "ReadFile env (privateKeyPath g) = Inr rawKey"
    and "ParseKey env rawKey = Inr combinedKey"
    and "Raw env combinedKey = Inr key"
  shows "generateAppToken env g =
     (Sign env \<lparr>iss = Some (FormatInt (sint (appID g))), sub = None, aud = [],
                 exp = Some (Add (Now env) (tokenLiveness g)), nbf = None,
                 iat = Some (Now env), jti = None, privateClaims = []\<rparr> RS256 key,
      g, [FileRead (privateKeyPath g)])"
  using assms
  by (simp add: generateAppToken_def Build_def Expiration_def IssuedAt_def Issuer_def
      NewBuilder_def Let_def)




subsection \<open>What the exchanger does on the network\<close>

lemma network_events_silent:
  "list_all is_network evs \<Longrightarrow> stdout_of evs = [] \<and> stderr_of evs = [] \<and> \<not> list_ex is_file_read evs"
proof (induction evs)
  case Nil
  then show ?case by simp
next
  case (Cons e evs)
  then show ?case by (cases e) auto
qed

lemma generateInstallationToken_events:
  "generateInstallationToken env g t = (r, g', evs) \<Longrightarrow> list_all is_network evs"
  by (auto simp: generateInstallationToken_def split: sum.splits prod.splits if_splits)

lemma exchange_silent:
  "generateInstallationToken env g t = (r, g', evs) \<Longrightarrow> stdout_of evs = [] \<and> stderr_of evs = []"
  by (auto dest!: generateInstallationToken_events network_events_silent)

lemma exchange_success:
  "generateInstallationToken env g t = (Inr tok, g', evs) \<Longrightarrow>
     \<exists>owner repo installation out.
        Cut (installedRepository g) ''/'' = (owner, repo, True)
        \<and> FindRepositoryInstallation env t owner repo = Inr installation
        \<and> CreateInstallationToken env t (GetID installation) = Inr out
        \<and> tok = GetToken out
        \<and> evs = [HttpFind t owner repo, HttpCreate t (GetID installation)]"
  by (auto simp: generateInstallationToken_def split: sum.splits prod.splits if_splits)

subsection \<open>The paths through one invocation\<close>

lemma Parse_silent:
  "Parse env prog g args = (r, g', evs) \<Longrightarrow>
     stdout_of evs = [] \<and> stderr_of evs = [] \<and> \<not> list_ex is_network evs \<and> \<not> list_ex is_file_read evs"
  by (auto dest!: Parse_events flag_events_silent)

lemma run_cases [consumes 1, case_names usage bad_flag no_key no_id sign_failed app_token exchange_failed installation_token]:
  assumes "Parse env prog (register_flags g) args = (perr, g1, pevs)"
  obtains
    "perr = Some ErrHelp"
    "run env (prog # args) g = Some (None, g1, pevs)"
  | m where
    "perr = Some (ErrorString m)"
    "run env (prog # args) g = Some (Some (ErrorString m), g1, pevs)"
  | "perr = None" "privateKeyPath g1 = []"
    "run env (prog # args) g = Some (Some (ErrorString ''-private-key is required''), g1, pevs)"
  | "perr = None" "privateKeyPath g1 \<noteq> []" "appID g1 = 0"
    "run env (prog # args) g = Some (Some (ErrorString ''-id is required''), g1, pevs)"
  | e where
    "perr = None" "privateKeyPath g1 \<noteq> []" "appID g1 \<noteq> 0"
    "generateAppToken env g1 = (Inl e, g1, [FileRead (privateKeyPath g1)])"
    "run env (prog # args) g =
       Some (Some (Errorf_w ''generateAuthToken(): '' e), g1, pevs @ [FileRead (privateKeyPath g1)])"
  | appToken where
    "perr = None" "privateKeyPath g1 \<noteq> []" "appID g1 \<noteq> 0"
    "generateAppToken env g1 = (Inr appToken, g1, [FileRead (privateKeyPath g1)])"
    "installedRepository g1 = []"
    "run env (prog # args) g =
       Some (None, g1, pevs @ [FileRead (privateKeyPath g1)] @ [OutWrite (appToken @ newline)])"
  | appToken e evs3 where
    "perr = None" "privateKeyPath g1 \<noteq> []" "appID g1 \<noteq> 0"
    "generateAppToken env g1 = (Inr appToken, g1, [FileRead (privateKeyPath g1)])"
    "installedRepository g1 \<noteq> []"
    "generateInstallationToken env g1 appToken = (Inl e, g1, evs3)"
    "run env (prog # args) g =
       Some (Some (Errorf_w ''generateInstallationToken(): '' e), g1,
             pevs @ [FileRead (privateKeyPath g1)] @ evs3)"
  | appToken installationToken evs3 where
    "perr = None" "privateKeyPath g1 \<noteq> []" "appID g1 \<noteq> 0"
    "generateAppToken env g1 = (Inr appToken, g1, [FileRead (privateKeyPath g1)])"
    "installedRepository g1 \<noteq> []"
    "generateInstallationToken env g1 appToken = (Inr installationToken, g1, evs3)"
    "run env (prog # args) g =
       Some (None, g1, pevs @ [FileRead (privateKeyPath g1)] @ evs3
                         @ [OutWrite (installationToken @ newline)])"
proof (cases perr)
  case (Some err)
  then have shape: "err = ErrHelp \<or> (\<exists>m. err = ErrorString m)"
    using assms by (auto dest: Parse_error_shape)
  then show ?thesis
  proof
    assume "err = ErrHelp"
    then show ?thesis
      using Some assms that(1) by (simp add: run_def)
  next
    assume "\<exists>m. err = ErrorString m"
    then obtain m where "err = ErrorString m" ..
    then show ?thesis
      using Some assms that(2) by (simp add: run_def)
  qed
next
  case None
  show ?thesis
  proof (cases "privateKeyPath g1 = []")
    case True
    then show ?thesis
      using None assms that(3) by (simp add: run_def)
  next
    case key: False
    show ?thesis
    proof (cases "appID g1 = 0")
      case True
      then show ?thesis
        using None key assms that(4) by (simp add: run_def)
    next
      case id: False
      obtain ra ga ea where a: "generateAppToken env g1 = (ra, ga, ea)"
        by (metis prod.exhaust)
      then have fa: "ga = g1" "ea = [FileRead (privateKeyPath g1)]"
        by (auto dest: generateAppToken_frame)
      show ?thesis
      proof (cases ra)
        case (Inl e)
        then show ?thesis
          using None key id assms a fa that(5) by (simp add: run_def)
      next
        case (Inr appToken)
        show ?thesis
        proof (cases "installedRepository g1 = []")
          case True
          then show ?thesis
            using None key id assms a fa Inr that(6)
            by (simp add: run_def shouldGenerateInstallationToken_def)
        next
          case repo: False
          obtain ri gi ei where i: "generateInstallationToken env g1 appToken = (ri, gi, ei)"
            by (metis prod.exhaust)
          then have fi: "gi = g1"
            by (rule generateInstallationToken_frame)
          show ?thesis
          proof (cases ri)
            case (Inl e)
            then show ?thesis
              using None key id assms a fa Inr repo i fi that(7)
              by (simp add: run_def shouldGenerateInstallationToken_def)
          next
            case r: (Inr installationToken)
            then show ?thesis
              using None key id assms a fa Inr repo i fi that(8)
              by (simp add: run_def shouldGenerateInstallationToken_def)
          qed
        qed
      qed
    qed
  qed
qed

lemma Run_of_run:
  "run env argv g = Some (res, g', evs) \<Longrightarrow>
     Run env argv g =
       (case res of
          None \<Rightarrow> Some (0, g', evs)
        | Some err \<Rightarrow> Some (case ExitCode err of Some c \<Rightarrow> c | None \<Rightarrow> 0, g',
                             evs @ [ErrWrite (Error err @ newline)]))"
  by (simp add: Run_def split: option.splits)


lemma Run_exit_code_zero:
  assumes "Run env argv g = Some (code, g', evs)"
  shows "code = 0"
proof (cases argv)
  case Nil
  with assms show ?thesis by (simp add: Run_def run_def)
next
  case (Cons prog args)
  obtain perr g1 pevs where p: "Parse env prog (register_flags g) args = (perr, g1, pevs)"
    by (metis prod.exhaust)
  from p show ?thesis
    using assms Cons
    by (cases rule: run_cases) (auto simp: Run_of_run Errorf_w_def)
qed

subsection \<open>The example worlds, evaluated\<close>

lemma Parse_usage_only:
  "Parse acme ''prog'' (register_flags NewGenerator) [''-h''] =
     (Some ErrHelp, register_flags NewGenerator, [FlagSetUsage ''prog''])"
  by (simp add: Parse.simps parseOne_def split_value_def formal_def)

lemma Parse_id_only:
  "Parse acme ''prog'' (register_flags NewGenerator) [''-id'', ''123''] =
     (None, \<lparr>privateKeyPath = [], appID = 123, tokenLiveness = Minute, installedRepository = []\<rparr>, [])"
  by (simp add: Parse.simps parseOne_def split_value_def formal_def flag_Set_def acme_def
      decimal_ParseInt_def decimal_value_def register_flags_def NewGenerator_def)

lemma Parse_full:
  "Parse acme ''prog'' (register_flags NewGenerator)
      [''-id'', ''123'', ''-private-key'', ''key.pem'', ''-repo'', ''acme/widgets''] =
     (None, \<lparr>privateKeyPath = ''key.pem'', appID = 123, tokenLiveness = Minute,
             installedRepository = ''acme/widgets''\<rparr>, [])"
  by (simp add: Parse.simps parseOne_def split_value_def formal_def flag_Set_def acme_def
      decimal_ParseInt_def decimal_value_def register_flags_def NewGenerator_def)

lemma acme_app_token:
  "generateAppToken acme \<lparr>privateKeyPath = ''key.pem'', appID = 123, tokenLiveness = d,
      installedRepository = r\<rparr> =
     (Inr ''jwt.123'', \<lparr>privateKeyPath = ''key.pem'', appID = 123, tokenLiveness = d,
      installedRepository = r\<rparr>, [FileRead ''key.pem''])"
  by (simp add: generateAppToken_def acme_def Build_def Expiration_def IssuedAt_def Issuer_def
      NewBuilder_def FormatInt_123)

lemma acme_exchange:
  "generateInstallationToken acme \<lparr>privateKeyPath = ''key.pem'', appID = 123, tokenLiveness = d,
      installedRepository = ''acme/widgets''\<rparr> ''jwt.123'' =
     (Inr ''ghs_abc'', \<lparr>privateKeyPath = ''key.pem'', appID = 123, tokenLiveness = d,
      installedRepository = ''acme/widgets''\<rparr>,
      [HttpFind ''jwt.123'' ''acme'' ''widgets'', HttpCreate ''jwt.123'' 999])"
  by (simp add: generateInstallationToken_def Cut_def acme_def GetID_def GetToken_def)

lemma run_acme_widgets:
  "run acme [''prog'', ''-id'', ''123'', ''-private-key'', ''key.pem'', ''-repo'', ''acme/widgets''] NewGenerator =
     Some (None, \<lparr>privateKeyPath = ''key.pem'', appID = 123, tokenLiveness = Minute,
                  installedRepository = ''acme/widgets''\<rparr>,
           [FileRead ''key.pem'', HttpFind ''jwt.123'' ''acme'' ''widgets'', HttpCreate ''jwt.123'' 999,
            OutWrite (''ghs_abc'' @ newline)])"
  by (simp add: run_def Parse_full acme_app_token acme_exchange shouldGenerateInstallationToken_def)

lemma Parse_usage_after_flags:
  "Parse acme ''prog'' (register_flags NewGenerator)
      [''-id'', ''123'', ''-private-key'', ''key.pem'', ''-h''] =
     (Some ErrHelp, \<lparr>privateKeyPath = ''key.pem'', appID = 123, tokenLiveness = Minute,
             installedRepository = []\<rparr>, [FlagSetUsage ''prog''])"
  by (simp add: Parse.simps parseOne_def split_value_def formal_def flag_Set_def acme_def
      decimal_ParseInt_def decimal_value_def register_flags_def NewGenerator_def)

lemma Parse_offline:
  "Parse offline ''prog'' (register_flags NewGenerator)
      [''-id'', ''123'', ''-private-key'', ''key.pem'', ''-repo'', ''acmewidgets''] =
     (None, \<lparr>privateKeyPath = ''key.pem'', appID = 123, tokenLiveness = Minute,
             installedRepository = ''acmewidgets''\<rparr>, [])"
  by (simp add: Parse.simps parseOne_def split_value_def formal_def flag_Set_def acme_def offline_def
      decimal_ParseInt_def decimal_value_def register_flags_def NewGenerator_def)


lemma offline_app_token:
  "generateAppToken offline \<lparr>privateKeyPath = ''key.pem'', appID = 123, tokenLiveness = d,
      installedRepository = r\<rparr> =
     (Inl (Errorf_w ''ioutil.ReadFile(key.pem): '' (Foreign ''no such file or directory'' (Some 2))),
      \<lparr>privateKeyPath = ''key.pem'', appID = 123, tokenLiveness = d, installedRepository = r\<rparr>,
      [FileRead ''key.pem''])"
  by (simp add: generateAppToken_def acme_def offline_def)

section \<open>The claims\<close>

text \<open>
  C1. The claim: a failing invocation writes the error message to the error stream and
  ends with a non-zero exit code. The first half holds. The exit code does not: no
  error \<open>run\<close> can return has an \<open>ExitCode\<close> method, so \<open>Run\<close> returns its zero
  default. Evaluated here on an invocation without flags, and on one whose key file
  is missing (where even the wrapped file-system error would carry the code 2).
\<close>

theorem failing_run_exits_zero:
  "run acme [''generate-github-app-token''] NewGenerator =
     Some (Some (ErrorString ''-private-key is required''), register_flags NewGenerator, [])
   \<and> Run acme [''generate-github-app-token''] NewGenerator =
     Some (0, register_flags NewGenerator, [ErrWrite (''-private-key is required'' @ newline)])
   \<and> Run offline [''prog'', ''-id'', ''123'', ''-private-key'', ''key.pem'', ''-repo'', ''acmewidgets''] NewGenerator =
     Some (0, \<lparr>privateKeyPath = ''key.pem'', appID = 123, tokenLiveness = Minute,
               installedRepository = ''acmewidgets''\<rparr>,
           [FileRead ''key.pem'',
            ErrWrite (''generateAuthToken(): ioutil.ReadFile(key.pem): no such file or directory'' @ newline)])"
proof -
  have p: "Parse acme ''generate-github-app-token'' (register_flags NewGenerator) [] =
      (None, register_flags NewGenerator, [])"
    by (simp add: Parse.simps parseOne_def)
  have k: "privateKeyPath (register_flags NewGenerator) = []"
    by (simp add: register_flags_def)
  show ?thesis
    by (simp add: Run_def run_def p k Parse_offline offline_app_token Errorf_w_def)
qed

text \<open>
  C2, as amended. For a positive app id, a positive liveness and a key file that reads
  and parses as an RSA private key, the token the library signs names RS256, carries
  the app id in decimal as issuer, an issued-at and an expiration, and no other claim,
  and verifies against the public half of the key from the file. The times handed to
  the builder are \<open>t\<close> and \<open>t\<close> plus the liveness, exactly the liveness apart. In the
  signed token both are whole seconds, rounded down: expiration minus issued-at is the
  liveness exactly when the liveness is a whole number of seconds, is always less than
  one second away from it, and the expiration is never before the issued-at.
\<close>

theorem app_token_claims:
  assumes "0 < sint (appID g)" and "0 < sint (tokenLiveness g)"
    and "ReadFile env (privateKeyPath g) = Inr rawKey"
    and "ParseKey env rawKey = Inr combinedKey"
    and "Raw env combinedKey = Inr key"
  shows "generateAppToken (env\<lparr>Sign := jwx_Sign encode\<rparr>) g =
       (Inr (encode (Compact RS256
          \<lparr>claim_iss = Some (FormatInt (sint (appID g))), claim_sub = None, claim_aud = [],
            claim_exp = Some (NumericDate (Add (Now env) (tokenLiveness g))), claim_nbf = None,
            claim_iat = Some (NumericDate (Now env)), claim_jti = None, claim_private = []\<rparr> key)),
        g, [FileRead (privateKeyPath g)])
     \<and> int (decimal_value (FormatInt (sint (appID g)))) = sint (appID g)
     \<and> Add (Now env) (tokenLiveness g) - Now env = sint (tokenLiveness g)
     \<and> (sint (tokenLiveness g) mod 1000000000 = 0 \<longrightarrow>
          (NumericDate (Add (Now env) (tokenLiveness g)) - NumericDate (Now env)) * 1000000000
            = sint (tokenLiveness g))
     \<and> sint (tokenLiveness g) - 1000000000
          < (NumericDate (Add (Now env) (tokenLiveness g)) - NumericDate (Now env)) * 1000000000
     \<and> (NumericDate (Add (Now env) (tokenLiveness g)) - NumericDate (Now env)) * 1000000000
          < sint (tokenLiveness g) + 1000000000
     \<and> NumericDate (Now env) \<le> NumericDate (Add (Now env) (tokenLiveness g))
     \<and> jws_Verify (Compact RS256
          \<lparr>claim_iss = Some (FormatInt (sint (appID g))), claim_sub = None, claim_aud = [],
            claim_exp = Some (NumericDate (Add (Now env) (tokenLiveness g))), claim_nbf = None,
            claim_iat = Some (NumericDate (Now env)), claim_jti = None, claim_private = []\<rparr> key)
          RS256 (PublicKey key)"
proof -
  let ?w = "env\<lparr>Sign := jwx_Sign encode\<rparr>"
  have "generateAppToken ?w g =
       (Sign ?w \<lparr>iss = Some (FormatInt (sint (appID g))), sub = None, aud = [],
                   exp = Some (Add (Now ?w) (tokenLiveness g)), nbf = None,
                   iat = Some (Now ?w), jti = None, privateClaims = []\<rparr> RS256 key,
        g, [FileRead (privateKeyPath g)])"
    using assms(3-5) by (intro generateAppToken_signs) simp_all
  then have signed: "generateAppToken ?w g =
       (Inr (encode (Compact RS256
          \<lparr>claim_iss = Some (FormatInt (sint (appID g))), claim_sub = None, claim_aud = [],
            claim_exp = Some (NumericDate (Add (Now env) (tokenLiveness g))), claim_nbf = None,
            claim_iat = Some (NumericDate (Now env)), claim_jti = None, claim_private = []\<rparr> key)),
        g, [FileRead (privateKeyPath g)])"
    by (simp add: jwx_Sign_def Marshal_def)
  have dec: "int (decimal_value (FormatInt (sint (appID g)))) = sint (appID g)"
    using assms(1) by (simp add: FormatInt_def decimal_value_FormatUint)
  have builder: "Add (Now env) (tokenLiveness g) - Now env = sint (tokenLiveness g)"
    by (simp add: Add_def)
  have whole: "sint (tokenLiveness g) mod 1000000000 = 0 \<longrightarrow>
          (NumericDate (Add (Now env) (tokenLiveness g)) - NumericDate (Now env)) * 1000000000
            = sint (tokenLiveness g)"
    unfolding Add_def by (rule impI) (rule NumericDate_whole)
  have window: "sint (tokenLiveness g) - 1000000000
          < (NumericDate (Add (Now env) (tokenLiveness g)) - NumericDate (Now env)) * 1000000000"
     "(NumericDate (Add (Now env) (tokenLiveness g)) - NumericDate (Now env)) * 1000000000
          < sint (tokenLiveness g) + 1000000000"
    unfolding Add_def by (rule NumericDate_window)+
  have order: "NumericDate (Now env) \<le> NumericDate (Add (Now env) (tokenLiveness g))"
    using assms(2) by (simp add: Add_def NumericDate_def zdiv_mono1)
  from signed dec builder whole window order show ?thesis
    by simp
qed

theorem app_token_claims_witness:
  "0 < sint (appID \<lparr>privateKeyPath = ''key.pem'', appID = 123, tokenLiveness = Minute, installedRepository = []\<rparr>)
   \<and> 0 < sint (tokenLiveness \<lparr>privateKeyPath = ''key.pem'', appID = 123, tokenLiveness = Minute, installedRepository = []\<rparr>)
   \<and> ReadFile acme ''key.pem'' = Inr ''PEM'' \<and> ParseKey acme ''PEM'' = Inr ''JWK''
   \<and> Raw acme ''JWK'' = Inr ''RSA''
   \<and> sint Minute mod 1000000000 = 0
   \<and> generateAppToken acme_jwx \<lparr>privateKeyPath = ''key.pem'', appID = 123, tokenLiveness = Minute, installedRepository = []\<rparr>
       = (Inr (dotted (Compact RS256
            \<lparr>claim_iss = Some ''123'', claim_sub = None, claim_aud = [],
              claim_exp = Some 1667401260, claim_nbf = None, claim_iat = Some 1667401200,
              claim_jti = None, claim_private = []\<rparr> ''RSA'')),
          \<lparr>privateKeyPath = ''key.pem'', appID = 123, tokenLiveness = Minute, installedRepository = []\<rparr>,
          [FileRead ''key.pem''])
   \<and> decimal_value ''123'' = 123
   \<and> (1667401260 - 1667401200) * 1000000000 = sint Minute"
proof -
  let ?g = "\<lparr>privateKeyPath = ''key.pem'', appID = 123, tokenLiveness = Minute, installedRepository = []\<rparr>"
  have h1: "0 < sint (appID ?g)" by simp
  have h2: "0 < sint (tokenLiveness ?g)" by (simp add: Minute_def)
  have h3: "ReadFile acme (privateKeyPath ?g) = Inr ''PEM''" by (simp add: acme_def)
  have h4: "ParseKey acme ''PEM'' = Inr ''JWK''" by (simp add: acme_def)
  have h5: "Raw acme ''JWK'' = Inr ''RSA''" by (simp add: acme_def)
  have m: "sint Minute = 60000000000" by (simp add: Minute_def)
  have n: "Now acme = 1667401200000000000" by (simp add: acme_def)
  have d: "NumericDate 1667401200000000000 = 1667401200"
    "NumericDate 1667401260000000000 = 1667401260"
    by (simp_all add: NumericDate_def)
  from app_token_claims [of ?g acme "''PEM''" "''JWK''" "''RSA''" dotted, OF h1 h2 h3 h4 h5]
  have "generateAppToken (acme\<lparr>Sign := jwx_Sign dotted\<rparr>) ?g =
       (Inr (dotted (Compact RS256
          \<lparr>claim_iss = Some (FormatInt (sint (appID ?g))), claim_sub = None, claim_aud = [],
            claim_exp = Some (NumericDate (Add (Now acme) (tokenLiveness ?g))), claim_nbf = None,
            claim_iat = Some (NumericDate (Now acme)), claim_jti = None, claim_private = []\<rparr> ''RSA'')),
        ?g, [FileRead (privateKeyPath ?g)])"
    "int (decimal_value (FormatInt (sint (appID ?g)))) = sint (appID ?g)"
    by blast+
  then show ?thesis
    using h1 h2 h3 h4 h5 by (simp add: acme_jwx_def FormatInt_123 m n d Add_def)
qed

theorem subsecond_liveness_is_rounded:
  "0 < sint (123 :: int64) \<and> 0 < sint (1500000000 :: Duration)
   \<and> ReadFile acme_jwx ''key.pem'' = Inr ''PEM'' \<and> ParseKey acme_jwx ''PEM'' = Inr ''JWK''
   \<and> Raw acme_jwx ''JWK'' = Inr ''RSA''
   \<and> generateAppToken (acme_jwx\<lparr>Now := 1667401200600000000\<rparr>)
        \<lparr>privateKeyPath = ''key.pem'', appID = 123, tokenLiveness = 1500000000, installedRepository = []\<rparr>
       = (Inr (dotted (Compact RS256
            \<lparr>claim_iss = Some ''123'', claim_sub = None, claim_aud = [],
              claim_exp = Some 1667401202, claim_nbf = None, claim_iat = Some 1667401200,
              claim_jti = None, claim_private = []\<rparr> ''RSA'')),
          \<lparr>privateKeyPath = ''key.pem'', appID = 123, tokenLiveness = 1500000000, installedRepository = []\<rparr>,
          [FileRead ''key.pem''])
   \<and> (1667401202 - 1667401200) * 1000000000 \<noteq> sint (1500000000 :: Duration)"
proof -
  have d: "NumericDate 1667401200600000000 = 1667401200"
    "NumericDate 1667401202100000000 = 1667401202"
    by (simp_all add: NumericDate_def)
  have s: "sint (1500000000 :: 64 word) = 1500000000"
    by simp
  show ?thesis
    by (simp add: acme_jwx_def acme_def generateAppToken_def Build_def Expiration_def IssuedAt_def
        Issuer_def NewBuilder_def jwx_Sign_def Marshal_def Add_def FormatInt_123 d s)
qed

text \<open>
  C3, as amended. The exchanger looks only for the first \<open>/\<close>: a repository string
  without any \<open>/\<close> fails with \<open>malformed repository name\<close> and no remote call is
  made; a string with at least one \<open>/\<close> always proceeds to the lookup call, with the
  text before the first \<open>/\<close> as owner and everything after it as name, be either of
  them empty or the name contain further slashes.
\<close>

theorem repository_without_slash_is_malformed:
  "(CHR ''/'' \<notin> set (installedRepository g) \<longrightarrow>
      generateInstallationToken env g appToken =
        (Inl (ErrorString (''malformed repository name: '' @ installedRepository g)), g, []))
   \<and> (CHR ''/'' \<in> set (installedRepository g) \<longrightarrow>
      (\<exists>r evs. generateInstallationToken env g appToken =
          (r, g, HttpFind appToken (takeWhile (\<lambda>c. c \<noteq> CHR ''/'') (installedRepository g))
                   (tl (dropWhile (\<lambda>c. c \<noteq> CHR ''/'') (installedRepository g))) # evs)
         \<and> r \<noteq> Inl (ErrorString (''malformed repository name: '' @ installedRepository g))))"
proof -
  let ?repo = "installedRepository g"
  let ?owner = "takeWhile (\<lambda>c. c \<noteq> CHR ''/'') ?repo"
  let ?name = "tl (dropWhile (\<lambda>c. c \<noteq> CHR ''/'') ?repo)"
  let ?malformed = "Inl (ErrorString (''malformed repository name: '' @ ?repo)) :: go_error + string"
  have no_slash: "generateInstallationToken env g appToken = (?malformed, g, [])"
    if "CHR ''/'' \<notin> set ?repo"
    using that by (simp add: generateInstallationToken_def Cut_slash)
  have slash: "\<exists>r evs. generateInstallationToken env g appToken
        = (r, g, HttpFind appToken ?owner ?name # evs) \<and> r \<noteq> ?malformed"
    if "CHR ''/'' \<in> set ?repo"
  proof (cases "FindRepositoryInstallation env appToken ?owner ?name")
    case (Inl err)
    then show ?thesis
      using that by (simp add: generateInstallationToken_def Cut_slash Errorf_w_def)
  next
    case (Inr installation)
    then show ?thesis
      using that
      by (cases "CreateInstallationToken env appToken (GetID installation)")
         (simp_all add: generateInstallationToken_def Cut_slash Errorf_w_def)
  qed
  from no_slash slash show ?thesis
    by blast
qed

theorem repository_without_slash_is_malformed_witness:
  "CHR ''/'' \<notin> set ''acmewidgets''
   \<and> generateInstallationToken acme (NewGenerator\<lparr>installedRepository := ''acmewidgets''\<rparr>) ''jwt.123'' =
        (Inl (ErrorString ''malformed repository name: acmewidgets''),
         NewGenerator\<lparr>installedRepository := ''acmewidgets''\<rparr>, [])
   \<and> CHR ''/'' \<in> set ''acme/widgets''
   \<and> generateInstallationToken acme (NewGenerator\<lparr>installedRepository := ''acme/widgets''\<rparr>) ''jwt.123'' =
        (Inr ''ghs_abc'', NewGenerator\<lparr>installedRepository := ''acme/widgets''\<rparr>,
         [HttpFind ''jwt.123'' ''acme'' ''widgets'', HttpCreate ''jwt.123'' 999])"
proof -
  have a: "CHR ''/'' \<notin> set ''acmewidgets''" by simp
  have b: "CHR ''/'' \<in> set ''acme/widgets''" by simp
  from repository_without_slash_is_malformed
    [of "NewGenerator\<lparr>installedRepository := ''acmewidgets''\<rparr>" acme "''jwt.123''"] a
  have "generateInstallationToken acme (NewGenerator\<lparr>installedRepository := ''acmewidgets''\<rparr>) ''jwt.123'' =
        (Inl (ErrorString ''malformed repository name: acmewidgets''),
         NewGenerator\<lparr>installedRepository := ''acmewidgets''\<rparr>, [])"
    by simp
  moreover have "generateInstallationToken acme (NewGenerator\<lparr>installedRepository := ''acme/widgets''\<rparr>) ''jwt.123'' =
        (Inr ''ghs_abc'', NewGenerator\<lparr>installedRepository := ''acme/widgets''\<rparr>,
         [HttpFind ''jwt.123'' ''acme'' ''widgets'', HttpCreate ''jwt.123'' 999])"
    by (simp add: generateInstallationToken_def Cut_def acme_def GetID_def GetToken_def)
  ultimately show ?thesis using a b by blast
qed

theorem extra_slash_and_empty_parts_proceed:
  "generateInstallationToken acme (NewGenerator\<lparr>installedRepository := ''acme/widgets/extra''\<rparr>) ''jwt.123'' =
     (Inr ''ghs_abc'', NewGenerator\<lparr>installedRepository := ''acme/widgets/extra''\<rparr>,
      [HttpFind ''jwt.123'' ''acme'' ''widgets/extra'', HttpCreate ''jwt.123'' 999])
   \<and> generateInstallationToken acme (NewGenerator\<lparr>installedRepository := ''acme/''\<rparr>) ''jwt.123'' =
     (Inr ''ghs_abc'', NewGenerator\<lparr>installedRepository := ''acme/''\<rparr>,
      [HttpFind ''jwt.123'' ''acme'' [], HttpCreate ''jwt.123'' 999])
   \<and> generateInstallationToken acme (NewGenerator\<lparr>installedRepository := ''/widgets''\<rparr>) ''jwt.123'' =
     (Inl (WrapError ''Apps.FindRepositoryInstallation(): 404 Not Found'' (Foreign ''404 Not Found'' (Some 4))),
      NewGenerator\<lparr>installedRepository := ''/widgets''\<rparr>,
      [HttpFind ''jwt.123'' [] ''widgets''])"
  by (simp add: generateInstallationToken_def Cut_def acme_def GetID_def GetToken_def Errorf_w_def)

text \<open>
  C4. In every run of the exchanger a token-creation call is made only directly after
  a lookup call that succeeded, for the installation that lookup returned; when the
  lookup fails the exchanger returns the lookup error, labelled
  \<open>Apps.FindRepositoryInstallation()\<close>, and the lookup is its only remote call.
\<close>

theorem lookup_before_creation:
  assumes "generateInstallationToken env g appToken = (r, g', evs)"
  shows "(\<forall>t i. HttpCreate t i \<in> set evs \<longrightarrow>
            (\<exists>owner repo installation.
               FindRepositoryInstallation env appToken owner repo = Inr installation
               \<and> evs = [HttpFind appToken owner repo, HttpCreate t i]
               \<and> t = appToken \<and> i = GetID installation))
     \<and> (\<forall>owner repo err.
            Cut (installedRepository g) ''/'' = (owner, repo, True)
            \<and> FindRepositoryInstallation env appToken owner repo = Inl err \<longrightarrow>
            r = Inl (Errorf_w ''Apps.FindRepositoryInstallation(): '' err)
            \<and> evs = [HttpFind appToken owner repo])"
  using assms
  by (auto simp: generateInstallationToken_def split: prod.splits if_splits sum.splits)

theorem lookup_before_creation_witness:
  "generateInstallationToken offline (NewGenerator\<lparr>installedRepository := ''acme/widgets''\<rparr>) ''jwt.123'' =
     (Inl (Errorf_w ''Apps.FindRepositoryInstallation(): '' (Foreign ''dial tcp: no route to host'' (Some 1))),
      NewGenerator\<lparr>installedRepository := ''acme/widgets''\<rparr>, [HttpFind ''jwt.123'' ''acme'' ''widgets''])
   \<and> Cut ''acme/widgets'' ''/'' = (''acme'', ''widgets'', True)
   \<and> FindRepositoryInstallation offline ''jwt.123'' ''acme'' ''widgets'' = Inl (Foreign ''dial tcp: no route to host'' (Some 1))
   \<and> generateInstallationToken acme (NewGenerator\<lparr>installedRepository := ''acme/widgets''\<rparr>) ''jwt.123'' =
     (Inr ''ghs_abc'', NewGenerator\<lparr>installedRepository := ''acme/widgets''\<rparr>,
      [HttpFind ''jwt.123'' ''acme'' ''widgets'', HttpCreate ''jwt.123'' 999])
   \<and> FindRepositoryInstallation acme ''jwt.123'' ''acme'' ''widgets'' = Inr \<lparr>ID = Some 999\<rparr>"
proof -
  have online: "generateInstallationToken acme (NewGenerator\<lparr>installedRepository := ''acme/widgets''\<rparr>) ''jwt.123'' =
     (Inr ''ghs_abc'', NewGenerator\<lparr>installedRepository := ''acme/widgets''\<rparr>,
      [HttpFind ''jwt.123'' ''acme'' ''widgets'', HttpCreate ''jwt.123'' 999])"
    by (simp add: generateInstallationToken_def Cut_def acme_def GetID_def GetToken_def)
  have found: "FindRepositoryInstallation acme ''jwt.123'' ''acme'' ''widgets'' = Inr \<lparr>ID = Some 999\<rparr>"
    by (simp add: acme_def)
  let ?g = "NewGenerator\<lparr>installedRepository := ''acme/widgets''\<rparr>"
  obtain r g' evs where run: "generateInstallationToken offline ?g ''jwt.123'' = (r, g', evs)"
    by (metis prod.exhaust)
  have c: "Cut (installedRepository ?g) ''/'' = (''acme'', ''widgets'', True)"
    by (simp add: Cut_def)
  have f: "FindRepositoryInstallation offline ''jwt.123'' ''acme'' ''widgets'' = Inl (Foreign ''dial tcp: no route to host'' (Some 1))"
    by (simp add: offline_def acme_def)
  from lookup_before_creation [OF run] c f
  have "r = Inl (Errorf_w ''Apps.FindRepositoryInstallation(): '' (Foreign ''dial tcp: no route to host'' (Some 1)))
     \<and> evs = [HttpFind ''jwt.123'' ''acme'' ''widgets'']"
    by blast
  moreover have "g' = ?g"
    using run by (rule generateInstallationToken_frame)
  ultimately show ?thesis
    using run c f online found by simp
qed

text \<open>
  C5, as amended. In every invocation one of three things holds: exactly one line (a
  token and a line terminator) is written to the output stream, by a single write, and
  \<open>run\<close> succeeded; or \<open>run\<close> failed, nothing is written to the output stream and
  the error message is written to the error stream; or usage was requested (\<open>-h\<close>,
  \<open>-help\<close>), \<open>run\<close> returns no error, nothing is written to the output stream and
  the usage text the flag set prints is all there is.
\<close>

theorem one_line_or_error_or_usage:
  "\<exists>code g' evs res evs0.
     Run env (prog # args) g = Some (code, g', evs)
     \<and> run env (prog # args) g = Some (res, g', evs0)
     \<and> ((\<exists>token. res = None \<and> stdout_of evs = [token @ newline])
        \<or> (\<exists>err. res = Some err \<and> stdout_of evs = []
              \<and> ErrWrite (Error err @ newline) \<in> set evs)
        \<or> (fst (Parse env prog (register_flags g) args) = Some ErrHelp \<and> res = None
            \<and> evs = [FlagSetUsage prog] \<and> stdout_of evs = []))"
proof -
  obtain perr g1 pevs where p: "Parse env prog (register_flags g) args = (perr, g1, pevs)"
    by (metis prod.exhaust)
  note s = Parse_silent [OF p]
  from p show ?thesis
  proof (cases rule: run_cases)
    case usage
    then have "pevs = [FlagSetUsage prog]"
      using p by (auto dest: Parse_usage_events)
    then show ?thesis
      using usage p by (simp add: Run_of_run)
  next
    case (bad_flag m)
    then show ?thesis
      using s by (simp add: Run_of_run stdout_of_append)
  next
    case no_key
    then show ?thesis
      using s by (simp add: Run_of_run stdout_of_append)
  next
    case no_id
    then show ?thesis
      using s by (simp add: Run_of_run stdout_of_append)
  next
    case (sign_failed e)
    then show ?thesis
      using s by (simp add: Run_of_run stdout_of_append)
  next
    case (app_token appToken)
    then show ?thesis
      using s by (simp add: Run_of_run stdout_of_append)
  next
    case (exchange_failed appToken e evs3)
    then show ?thesis
      using s exchange_silent [OF exchange_failed(6)]
      by (simp add: Run_of_run stdout_of_append)
  next
    case (installation_token appToken installationToken evs3)
    then show ?thesis
      using s exchange_silent [OF installation_token(6)]
      by (simp add: Run_of_run stdout_of_append)
  qed
qed

theorem usage_request_writes_neither_stream:
  "run acme [''prog'', ''-h''] NewGenerator = Some (None, register_flags NewGenerator, [FlagSetUsage ''prog''])
   \<and> Run acme [''prog'', ''-h''] NewGenerator = Some (0, register_flags NewGenerator, [FlagSetUsage ''prog''])
   \<and> stdout_of [FlagSetUsage ''prog''] = [] \<and> stderr_of [FlagSetUsage ''prog''] = []"
  by (simp add: Run_def run_def Parse_usage_only)

text \<open>
  C6, as amended. Whenever the private-key path is empty or the app id is 0 once the
  flags are parsed, the invocation reads no file and makes no remote call, and it
  ends as follows: when usage was requested, \<open>run\<close> returns no error; when flag
  parsing failed, \<open>run\<close> returns that error; otherwise it returns
  \<open>-private-key is required\<close>, or \<open>-id is required\<close> when only the id is missing.
\<close>

theorem missing_flag_stops_before_io:
  assumes "Parse env prog (register_flags g) args = (perr, g1, pevs)"
    and "privateKeyPath g1 = [] \<or> appID g1 = 0"
  shows "\<exists>res. run env (prog # args) g = Some (res, g1, pevs)
     \<and> \<not> list_ex is_file_read pevs \<and> \<not> list_ex is_network pevs
     \<and> (if perr = Some ErrHelp then res = None
         else if perr = None then
           res = Some (ErrorString (if privateKeyPath g1 = [] then ''-private-key is required''
                                    else ''-id is required''))
         else res = perr)"
proof -
  note s = Parse_silent [OF assms(1)]
  from assms(1) show ?thesis
  proof (cases rule: run_cases)
    case usage
    then show ?thesis using s by simp
  next
    case (bad_flag m)
    then show ?thesis using s by simp
  next
    case no_key
    then show ?thesis using s by simp
  next
    case no_id
    then show ?thesis using s by simp
  next
    case (sign_failed e)
    then show ?thesis using assms(2) by simp
  next
    case (app_token appToken)
    then show ?thesis using assms(2) by simp
  next
    case (exchange_failed appToken e evs3)
    then show ?thesis using assms(2) by simp
  next
    case (installation_token appToken installationToken evs3)
    then show ?thesis using assms(2) by simp
  qed
qed

theorem missing_flag_stops_before_io_witness:
  "Parse acme ''prog'' (register_flags NewGenerator) [''-id'', ''123''] =
     (None, \<lparr>privateKeyPath = [], appID = 123, tokenLiveness = Minute, installedRepository = []\<rparr>, [])
   \<and> privateKeyPath \<lparr>privateKeyPath = [], appID = 123, tokenLiveness = Minute, installedRepository = []\<rparr> = []
   \<and> run acme [''prog'', ''-id'', ''123''] NewGenerator =
       Some (Some (ErrorString ''-private-key is required''),
             \<lparr>privateKeyPath = [], appID = 123, tokenLiveness = Minute, installedRepository = []\<rparr>, [])"
proof -
  let ?g1 = "\<lparr>privateKeyPath = [], appID = 123, tokenLiveness = Minute, installedRepository = []\<rparr>"
  have h2: "privateKeyPath ?g1 = [] \<or> appID ?g1 = 0" by simp
  from missing_flag_stops_before_io [OF Parse_id_only h2]
  show ?thesis
    using Parse_id_only by auto
qed

theorem usage_request_without_flags_succeeds:
  "run acme [''prog'', ''--help''] NewGenerator =
     Some (None, register_flags NewGenerator, [FlagSetUsage ''prog''])
   \<and> privateKeyPath (register_flags NewGenerator) = []
   \<and> appID (register_flags NewGenerator) = 0"
  by (simp add: run_def Parse.simps parseOne_def split_value_def formal_def register_flags_def)

text \<open>
  C7, as amended. For every run that returns no error and in which usage was not
  requested: the app token was signed; with an empty \<open>-repo\<close> the one line on the
  output stream is that app token and no remote call was made; with a non-empty
  \<open>-repo\<close> the exchanger was invoked with the app token as bearer, both remote
  calls succeeded, and the one line on the output stream is the token the creation
  call returned.
\<close>

theorem successful_run_output:
  assumes "run env (prog # args) g = Some (None, g', evs)"
    and "Parse env prog (register_flags g) args = (perr, g1, pevs)"
    and "perr \<noteq> Some ErrHelp"
  shows "\<exists>appToken. fst (generateAppToken env g1) = Inr appToken
     \<and> (if installedRepository g1 = [] then
           stdout_of evs = [appToken @ newline] \<and> \<not> list_ex is_network evs
         else
           (\<exists>owner repo installation out.
              Cut (installedRepository g1) ''/'' = (owner, repo, True)
              \<and> FindRepositoryInstallation env appToken owner repo = Inr installation
              \<and> CreateInstallationToken env appToken (GetID installation) = Inr out
              \<and> stdout_of evs = [GetToken out @ newline]
              \<and> HttpFind appToken owner repo \<in> set evs
              \<and> HttpCreate appToken (GetID installation) \<in> set evs))"
proof -
  note s = Parse_silent [OF assms(2)]
  from assms(2) show ?thesis
  proof (cases rule: run_cases)
    case usage
    then show ?thesis using assms(3) by simp
  next
    case (bad_flag m)
    then show ?thesis using assms(1) by simp
  next
    case no_key
    then show ?thesis using assms(1) by simp
  next
    case no_id
    then show ?thesis using assms(1) by simp
  next
    case (sign_failed e)
    then show ?thesis using assms(1) by simp
  next
    case (app_token appToken)
    then show ?thesis
      using assms(1) s by (auto simp: stdout_of_append)
  next
    case (exchange_failed appToken e evs3)
    then show ?thesis using assms(1) by simp
  next
    case (installation_token appToken installationToken evs3)
    from exchange_success [OF installation_token(6)]
    obtain owner repo installation out where
      x: "Cut (installedRepository g1) ''/'' = (owner, repo, True)"
         "FindRepositoryInstallation env appToken owner repo = Inr installation"
         "CreateInstallationToken env appToken (GetID installation) = Inr out"
         "installationToken = GetToken out"
         "evs3 = [HttpFind appToken owner repo, HttpCreate appToken (GetID installation)]"
      by blast
    have "evs = pevs @ [FileRead (privateKeyPath g1)] @ evs3 @ [OutWrite (installationToken @ newline)]"
      using installation_token(7) assms(1) by simp
    then have "stdout_of evs = [GetToken out @ newline]"
      "HttpFind appToken owner repo \<in> set evs"
      "HttpCreate appToken (GetID installation) \<in> set evs"
      using s x(4,5) by (simp_all add: stdout_of_append)
    then show ?thesis
      using installation_token(4,5) x(1-3) by auto
  qed
qed

theorem successful_run_output_witness:
  "run acme [''prog'', ''-id'', ''123'', ''-private-key'', ''key.pem'', ''-repo'', ''acme/widgets''] NewGenerator =
     Some (None, \<lparr>privateKeyPath = ''key.pem'', appID = 123, tokenLiveness = Minute,
                  installedRepository = ''acme/widgets''\<rparr>,
           [FileRead ''key.pem'', HttpFind ''jwt.123'' ''acme'' ''widgets'', HttpCreate ''jwt.123'' 999,
            OutWrite (''ghs_abc'' @ newline)])
   \<and> fst (Parse acme ''prog'' (register_flags NewGenerator)
        [''-id'', ''123'', ''-private-key'', ''key.pem'', ''-repo'', ''acme/widgets'']) \<noteq> Some ErrHelp
   \<and> stdout_of [FileRead ''key.pem'', HttpFind ''jwt.123'' ''acme'' ''widgets'', HttpCreate ''jwt.123'' 999,
            OutWrite (''ghs_abc'' @ newline)] = [''ghs_abc'' @ newline]"
proof -
  have h3: "(None :: go_error option) \<noteq> Some ErrHelp" by simp
  from successful_run_output [OF run_acme_widgets Parse_full h3]
  show ?thesis
    using run_acme_widgets Parse_full by simp
qed

theorem usage_request_succeeds_without_token:
  "run acme [''prog'', ''-id'', ''123'', ''-private-key'', ''key.pem'', ''-h''] NewGenerator =
     Some (None, \<lparr>privateKeyPath = ''key.pem'', appID = 123, tokenLiveness = Minute,
                  installedRepository = []\<rparr>, [FlagSetUsage ''prog''])
   \<and> stdout_of [FlagSetUsage ''prog''] = []
   \<and> fst (generateAppToken acme \<lparr>privateKeyPath = ''key.pem'', appID = 123, tokenLiveness = Minute,
                  installedRepository = []\<rparr>) = Inr ''jwt.123''"
  by (simp add: run_def Parse_usage_after_flags acme_app_token)



text \<open>
  C9. The generator \<open>run\<close> and \<open>Run\<close> leave behind is the generator as it was when
  flag parsing ended: private-key path, app id, liveness and repository are never
  written afterwards. The signer and the exchanger return the generator they were
  given.
\<close>

theorem fields_frozen_after_parse:
  "(\<exists>res evs. run env (prog # args) g =
       Some (res, fst (snd (Parse env prog (register_flags g) args)), evs))
   \<and> (\<exists>code evs. Run env (prog # args) g =
       Some (code, fst (snd (Parse env prog (register_flags g) args)), evs))
   \<and> fst (snd (generateAppToken env g1)) = g1
   \<and> fst (snd (generateInstallationToken env g1 appToken)) = g1"
proof -
  obtain perr gp pevs where p: "Parse env prog (register_flags g) args = (perr, gp, pevs)"
    by (metis prod.exhaust)
  from p have r: "\<exists>res evs. run env (prog # args) g = Some (res, gp, evs)"
    by (cases rule: run_cases) simp_all
  then obtain res evs where "run env (prog # args) g = Some (res, gp, evs)"
    by blast
  then have "\<exists>code evs. Run env (prog # args) g = Some (code, gp, evs)"
    by (cases res) (simp_all add: Run_of_run)
  moreover have "fst (snd (generateAppToken env g1)) = g1"
    by (metis generateAppToken_frame prod.collapse)
  moreover have "fst (snd (generateInstallationToken env g1 appToken)) = g1"
    by (metis generateInstallationToken_frame prod.collapse)
  ultimately show ?thesis
    using r p by simp
qed




end
